theory Spec2Isabelle
  imports Complex_Main "HOL-Library.AList" "HOL-Library.Sublist"
begin

section \<open>Python values of the design document\<close>

text \<open>
  The document tree that \<^verbatim>\<open>process_node\<close> walks is what \<^verbatim>\<open>res.json()\<close> returns:
  nested Python objects built from \<^verbatim>\<open>None\<close>, booleans, integers, floats, strings,
  lists and dicts with string keys. A dict is an association list in insertion order,
  read through \<open>map_of\<close>; strings are lists of characters (code points below 256).

  A Python float is an IEEE double: a finite value (a rational, with the negative zero
  apart), an infinity or a NaN.
\<close>

datatype pyfloat = Finite rat | NegZero | Infinity bool | NaN

datatype json =
    JNull
  | JBool bool
  | JInt int
  | JFloat pyfloat
  | JStr string
  | JArr "json list"
  | JObj "(string \<times> json) list"

text \<open>The exceptions the program can raise; \<open>FetchError\<close> stands for whatever
  \<^verbatim>\<open>requests.get\<close>, \<^verbatim>\<open>raise_for_status\<close> or \<^verbatim>\<open>res.json\<close> raise.\<close>

datatype pyerr =
    AttributeError
  | KeyError
  | TypeError
  | IndexError
  | ValueError
  | OverflowError
  | FetchError

type_synonym 'a result = "pyerr + 'a"

text \<open>
  What the program uses of the Python runtime and of the network, and this repository
  does not define: the rounded IEEE product of a float and an integer, \<^verbatim>\<open>str\<close> of a
  float and of a list or dict (their \<^verbatim>\<open>repr\<close>), \<^verbatim>\<open>int\<close> of a string, and the
  answer of the image endpoint for a node id (the parsed body of the response, or the
  failure of the request).
\<close>

record pyenv =
  float_mul :: "pyfloat \<Rightarrow> int \<Rightarrow> pyfloat"
  float_str :: "pyfloat \<Rightarrow> string"
  container_str :: "json \<Rightarrow> string"
  int_of_str :: "string \<Rightarrow> int result"
  images_get :: "json \<Rightarrow> json result"

section \<open>Python built-ins\<close>

definition bind :: "'a result \<Rightarrow> ('a \<Rightarrow> 'b result) \<Rightarrow> 'b result" where
  "bind m f = (case m of Inl e \<Rightarrow> Inl e | Inr x \<Rightarrow> f x)"

text \<open>\<^verbatim>\<open>v == "lit"\<close>: only the string itself equals a string literal.\<close>

fun str_eq :: "json \<Rightarrow> string \<Rightarrow> bool" where
  "str_eq (JStr s) lit = (s = lit)"
| "str_eq _ lit = False"

text \<open>Truth value testing, as in \<^verbatim>\<open>if x:\<close> and \<^verbatim>\<open>x or []\<close>.\<close>

fun float_truthy :: "pyfloat \<Rightarrow> bool" where
  "float_truthy (Finite q) = (q \<noteq> 0)"
| "float_truthy NegZero = False"
| "float_truthy (Infinity _) = True"
| "float_truthy NaN = True"

fun truthy :: "json \<Rightarrow> bool" where
  "truthy JNull = False"
| "truthy (JBool b) = b"
| "truthy (JInt n) = (n \<noteq> 0)"
| "truthy (JFloat f) = float_truthy f"
| "truthy (JStr s) = (s \<noteq> [])"
| "truthy (JArr xs) = (xs \<noteq> [])"
| "truthy (JObj kvs) = (kvs \<noteq> [])"

text \<open>\<^verbatim>\<open>d.get(k, default)\<close> on a dict, and \<^verbatim>\<open>v.get(k, default)\<close> on any value: only a
  dict has the method.\<close>

definition dict_get :: "(string \<times> json) list \<Rightarrow> string \<Rightarrow> json \<Rightarrow> json" where
  "dict_get kvs k d = (case map_of kvs k of None \<Rightarrow> d | Some v \<Rightarrow> v)"

fun py_get :: "json \<Rightarrow> string \<Rightarrow> json \<Rightarrow> json result" where
  "py_get (JObj kvs) k d = Inr (dict_get kvs k d)"
| "py_get _ k d = Inl AttributeError"

text \<open>\<^verbatim>\<open>v["k"]\<close>: a missing key of a dict is a KeyError; a list or a string wants an
  integer index, and nothing else is subscriptable.\<close>

fun py_getitem :: "json \<Rightarrow> string \<Rightarrow> json result" where
  "py_getitem (JObj kvs) k = (case map_of kvs k of None \<Rightarrow> Inl KeyError | Some v \<Rightarrow> Inr v)"
| "py_getitem _ k = Inl TypeError"

text \<open>\<^verbatim>\<open>v[0]\<close>: a dict with string keys has no key \<open>0\<close>.\<close>

fun py_first :: "json \<Rightarrow> json result" where
  "py_first (JArr []) = Inl IndexError"
| "py_first (JArr (x # xs)) = Inr x"
| "py_first (JStr []) = Inl IndexError"
| "py_first (JStr (c # cs)) = Inr (JStr [c])"
| "py_first (JObj kvs) = Inl KeyError"
| "py_first _ = Inl TypeError"

text \<open>\<^verbatim>\<open>for child in v\<close>: a string yields its characters, a dict its keys.\<close>

fun py_iter :: "json \<Rightarrow> json list result" where
  "py_iter (JArr xs) = Inr xs"
| "py_iter (JStr s) = Inr (map (\<lambda>c. JStr [c]) s)"
| "py_iter (JObj kvs) = Inr (map (\<lambda>kv. JStr (fst kv)) kvs)"
| "py_iter _ = Inl TypeError"

text \<open>\<^verbatim>\<open>str\<close> of an integer: decimal digits, with a sign.\<close>

fun str_nat :: "nat \<Rightarrow> string" where
  "str_nat n =
     (if n < 10 then [''0123456789'' ! n]
      else str_nat (n div 10) @ [''0123456789'' ! (n mod 10)])"

definition str_int :: "int \<Rightarrow> string" where
  "str_int i = (if i < 0 then CHR ''-'' # str_nat (nat (- i)) else str_nat (nat i))"

text \<open>The value an f-string writes for \<^verbatim>\<open>{v}\<close>, that is \<^verbatim>\<open>str(v)\<close>.\<close>

fun py_str :: "pyenv \<Rightarrow> json \<Rightarrow> string" where
  "py_str E JNull = ''None''"
| "py_str E (JBool b) = (if b then ''True'' else ''False'')"
| "py_str E (JInt n) = str_int n"
| "py_str E (JFloat f) = float_str E f"
| "py_str E (JStr s) = s"
| "py_str E (JArr xs) = container_str E (JArr xs)"
| "py_str E (JObj kvs) = container_str E (JObj kvs)"

text \<open>\<^verbatim>\<open>s.lower()\<close> on code points below 256: the ASCII capitals and the Latin-1
  capitals (\<open>0xC0..0xDE\<close> without the multiplication sign \<open>0xD7\<close>) have a lower-case
  letter 32 places up; every other character stays.\<close>

definition capitals :: "(char \<times> char) list" where
  "capitals =
     zip (''ABCDEFGHIJKLMNOPQRSTUVWXYZ'' @
       [CHR 0xC0, CHR 0xC1, CHR 0xC2, CHR 0xC3, CHR 0xC4, CHR 0xC5, CHR 0xC6, CHR 0xC7, CHR 0xC8, CHR 0xC9,
        CHR 0xCA, CHR 0xCB, CHR 0xCC, CHR 0xCD, CHR 0xCE, CHR 0xCF, CHR 0xD0, CHR 0xD1, CHR 0xD2, CHR 0xD3,
        CHR 0xD4, CHR 0xD5, CHR 0xD6, CHR 0xD8, CHR 0xD9, CHR 0xDA, CHR 0xDB, CHR 0xDC, CHR 0xDD, CHR 0xDE])
      (''abcdefghijklmnopqrstuvwxyz'' @
       [CHR 0xE0, CHR 0xE1, CHR 0xE2, CHR 0xE3, CHR 0xE4, CHR 0xE5, CHR 0xE6, CHR 0xE7, CHR 0xE8, CHR 0xE9,
        CHR 0xEA, CHR 0xEB, CHR 0xEC, CHR 0xED, CHR 0xEE, CHR 0xEF, CHR 0xF0, CHR 0xF1, CHR 0xF2, CHR 0xF3,
        CHR 0xF4, CHR 0xF5, CHR 0xF6, CHR 0xF8, CHR 0xF9, CHR 0xFA, CHR 0xFB, CHR 0xFC, CHR 0xFD, CHR 0xFE])"

definition lower_char :: "char \<Rightarrow> char" where
  "lower_char c = (case map_of capitals c of None \<Rightarrow> c | Some l \<Rightarrow> l)"

fun py_lower :: "json \<Rightarrow> string result" where
  "py_lower (JStr s) = Inr (map lower_char s)"
| "py_lower _ = Inl AttributeError"

text \<open>\<^verbatim>\<open>int(x)\<close> truncates a float towards zero and refuses an infinity and a NaN.\<close>

definition trunc :: "rat \<Rightarrow> int" where
  "trunc q = (if q < 0 then - \<lfloor>- q\<rfloor> else \<lfloor>q\<rfloor>)"

fun float_int :: "pyfloat \<Rightarrow> int result" where
  "float_int (Finite q) = Inr (trunc q)"
| "float_int NegZero = Inr 0"
| "float_int (Infinity _) = Inl OverflowError"
| "float_int NaN = Inl ValueError"

fun py_int :: "pyenv \<Rightarrow> json \<Rightarrow> int result" where
  "py_int E (JInt n) = Inr n"
| "py_int E (JBool b) = Inr (if b then 1 else 0)"
| "py_int E (JFloat f) = float_int f"
| "py_int E (JStr s) = int_of_str E s"
| "py_int E _ = Inl TypeError"

text \<open>\<^verbatim>\<open>v * 255\<close>: a product of numbers, the repetition of a string or a list.\<close>

fun py_mul :: "pyenv \<Rightarrow> json \<Rightarrow> int \<Rightarrow> json result" where
  "py_mul E (JInt n) k = Inr (JInt (n * k))"
| "py_mul E (JBool b) k = Inr (JInt ((if b then 1 else 0) * k))"
| "py_mul E (JFloat f) k = Inr (JFloat (float_mul E f k))"
| "py_mul E (JStr s) k = Inr (JStr (concat (replicate (nat k) s)))"
| "py_mul E (JArr xs) k = Inr (JArr (concat (replicate (nat k) xs)))"
| "py_mul E _ k = Inl TypeError"

section \<open>The program\<close>

subsection \<open>\<^verbatim>\<open>get_image_url\<close>\<close>

text \<open>\<^verbatim>\<open>images.get(node_id, "")\<close>: the method exists on a dict only, the key must be
  hashable, and only a string can be a key of a parsed JSON object.\<close>

fun images_lookup :: "json \<Rightarrow> json \<Rightarrow> json result" where
  "images_lookup (JObj kvs) (JStr i) = Inr (dict_get kvs i (JStr []))"
| "images_lookup (JObj kvs) (JArr xs) = Inl TypeError"
| "images_lookup (JObj kvs) (JObj xs) = Inl TypeError"
| "images_lookup (JObj kvs) _ = Inr (JStr [])"
| "images_lookup _ _ = Inl AttributeError"

definition get_image_url :: "pyenv \<Rightarrow> json \<Rightarrow> json result" where
  "get_image_url E node_id =
     bind (images_get E node_id) (\<lambda>body.
     bind (py_getitem body ''images'') (\<lambda>images.
     images_lookup images node_id))"

subsection \<open>\<^verbatim>\<open>rgba_from_fill\<close>\<close>

definition channel :: "pyenv \<Rightarrow> json \<Rightarrow> string \<Rightarrow> int result" where
  "channel E c k =
     bind (py_getitem c k) (\<lambda>v.
     bind (py_mul E v 255) (\<lambda>p.
     py_int E p))"

definition rgba_from_fill :: "pyenv \<Rightarrow> json \<Rightarrow> string result" where
  "rgba_from_fill E fill =
     bind (py_get fill ''type'' JNull) (\<lambda>ty.
     if str_eq ty ''SOLID'' then
       bind (py_getitem fill ''color'') (\<lambda>c.
       bind (channel E c ''r'') (\<lambda>r.
       bind (channel E c ''g'') (\<lambda>g.
       bind (channel E c ''b'') (\<lambda>b.
       bind (py_get fill ''opacity'' (JInt 1)) (\<lambda>a.
       Inr (''rgba('' @ str_int r @ '','' @ str_int g @ '','' @ str_int b @ '',''
            @ py_str E a @ '')''))))))
     else Inr [])"

subsection \<open>\<^verbatim>\<open>process_node\<close>: the style string\<close>

text \<open>Step 1 of \<^verbatim>\<open>process_node\<close>: absolute position and size.\<close>

definition css_position :: "pyenv \<Rightarrow> (string \<times> json) list \<Rightarrow> string result" where
  "css_position E node =
     (case map_of node ''absoluteBoundingBox'' of
        None \<Rightarrow> Inr []
      | Some bb \<Rightarrow>
          bind (py_getitem bb ''x'') (\<lambda>x.
          bind (py_getitem bb ''y'') (\<lambda>y.
          bind (py_getitem bb ''width'') (\<lambda>w.
          bind (py_getitem bb ''height'') (\<lambda>h.
          Inr (''position:absolute; ''
               @ ''left:'' @ py_str E x @ ''px; top:'' @ py_str E y @ ''px; ''
               @ ''width:'' @ py_str E w @ ''px; height:'' @ py_str E h @ ''px; ''))))))"

text \<open>Step 2: auto layout as a flex box. Where the test \<^verbatim>\<open>node.get("layoutMode")\<close>
  holds the key is there, so \<^verbatim>\<open>node["layoutMode"]\<close> is the value tested.\<close>

definition css_autolayout :: "pyenv \<Rightarrow> (string \<times> json) list \<Rightarrow> string result" where
  "css_autolayout E node =
     (let mode = dict_get node ''layoutMode'' JNull in
      if truthy mode then
        bind (py_lower (dict_get node ''primaryAxisAlignItems'' (JStr ''MIN''))) (\<lambda>ai.
        bind (py_lower (dict_get node ''counterAxisAlignItems'' (JStr ''MIN''))) (\<lambda>jc.
        Inr (''display:flex; ''
             @ ''flex-direction:'' @ (if str_eq mode ''HORIZONTAL'' then ''row'' else ''column'') @ ''; ''
             @ ''gap:'' @ py_str E (dict_get node ''itemSpacing'' (JInt 0)) @ ''px; ''
             @ ''padding:'' @ py_str E (dict_get node ''paddingTop'' (JInt 0)) @ ''px ''
             @ py_str E (dict_get node ''paddingRight'' (JInt 0)) @ ''px ''
             @ py_str E (dict_get node ''paddingBottom'' (JInt 0)) @ ''px ''
             @ py_str E (dict_get node ''paddingLeft'' (JInt 0)) @ ''px; ''
             @ ''align-items:'' @ ai @ ''; ''
             @ ''justify-content:'' @ jc @ ''; '')))
      else Inr [])"

text \<open>Step 3: constraints.\<close>

definition css_constraints :: "(string \<times> json) list \<Rightarrow> string result" where
  "css_constraints node =
     (let cons = dict_get node ''constraints'' (JObj []) in
      bind (py_get cons ''horizontal'' JNull) (\<lambda>h.
      bind (py_get cons ''vertical'' JNull) (\<lambda>v.
      Inr ((if str_eq h ''STRETCH'' then ''width:100%; ''
            else if str_eq h ''CENTER'' then ''margin-left:auto; margin-right:auto; ''
            else [])
           @ (if str_eq v ''STRETCH'' then ''height:100%; ''
              else if str_eq v ''CENTER'' then ''margin-top:auto; margin-bottom:auto; ''
              else [])))))"

text \<open>Step 4: the first layout grid.\<close>

definition css_grid :: "pyenv \<Rightarrow> (string \<times> json) list \<Rightarrow> string result" where
  "css_grid E node =
     (let grids = dict_get node ''layoutGrids'' (JArr []) in
      if truthy grids then
        bind (py_first grids) (\<lambda>g.
        bind (py_get g ''pattern'' JNull) (\<lambda>pat.
        if str_eq pat ''COLUMNS'' then
          bind (py_get g ''count'' JNull) (\<lambda>count.
          bind (py_get g ''gutterSize'' (JInt 0)) (\<lambda>gutter.
          Inr (''display:grid; ''
               @ ''grid-template-columns: repeat('' @ py_str E count @ '', 1fr); ''
               @ ''column-gap: '' @ py_str E gutter @ ''px; '')))
        else Inr []))
      else Inr [])"

text \<open>Step 5: the background colour, for every type but TEXT.
  \<open>fills_or_empty\<close> is \<^verbatim>\<open>node.get("fills") or []\<close>.\<close>

definition fills_or_empty :: "(string \<times> json) list \<Rightarrow> json" where
  "fills_or_empty node =
     (let fills = dict_get node ''fills'' JNull in if truthy fills then fills else JArr [])"

definition css_fill :: "pyenv \<Rightarrow> (string \<times> json) list \<Rightarrow> string result" where
  "css_fill E node =
     (let t = dict_get node ''type'' JNull in
      if \<not> str_eq t ''TEXT'' then
        (let fills = fills_or_empty node in
         if truthy fills then
           bind (py_first fills) (\<lambda>fill.
           bind (rgba_from_fill E fill) (\<lambda>color_str.
           if color_str \<noteq> [] then Inr (''background-color: '' @ color_str @ ''; '')
           else Inr []))
         else Inr [])
      else Inr [])"

text \<open>The variable \<^verbatim>\<open>css\<close> when step 6 starts: the five steps append in this order,
  and the first exception ends the call.\<close>

definition css_layout :: "pyenv \<Rightarrow> (string \<times> json) list \<Rightarrow> string result" where
  "css_layout E node =
     bind (css_position E node) (\<lambda>p.
     bind (css_autolayout E node) (\<lambda>a.
     bind (css_constraints node) (\<lambda>c.
     bind (css_grid E node) (\<lambda>g.
     Inr (p @ a @ c @ g)))))"

definition node_css :: "pyenv \<Rightarrow> (string \<times> json) list \<Rightarrow> string result" where
  "node_css E node =
     bind (css_layout E node) (\<lambda>l.
     bind (css_fill E node) (\<lambda>f.
     Inr (l @ f)))"


subsection \<open>\<^verbatim>\<open>process_node\<close>: the element of a node\<close>

text \<open>The colour of a text: \<^verbatim>\<open>black\<close> unless the first fill is SOLID.\<close>

definition text_color :: "pyenv \<Rightarrow> (string \<times> json) list \<Rightarrow> string result" where
  "text_color E node =
     (let fills = fills_or_empty node in
      if truthy fills then
        bind (py_first fills) (\<lambda>fill.
        bind (py_get fill ''type'' JNull) (\<lambda>ty.
        if str_eq ty ''SOLID'' then rgba_from_fill E fill else Inr ''black''))
      else Inr ''black'')"

text \<open>Step 6: the element of the node itself, by type, given the style string.\<close>

definition node_html :: "pyenv \<Rightarrow> (string \<times> json) list \<Rightarrow> string \<Rightarrow> string result" where
  \<open>node_html E node css =
     (let t = dict_get node ''type'' JNull in
      if str_eq t ''TEXT'' then
        bind (py_get (dict_get node ''style'' (JObj [])) ''fontSize'' (JInt 12)) (\<lambda>size.
        bind (text_color E node) (\<lambda>color.
        Inr (''<p style="'' @ css @ ''font-size:'' @ py_str E size @ ''px; color:'' @ color @ '';">''
             @ py_str E (dict_get node ''characters'' (JStr [])) @ ''</p>'')))
      else if str_eq t ''IMAGE'' then
        bind (py_getitem (JObj node) ''id'') (\<lambda>node_id.
        bind (get_image_url E node_id) (\<lambda>src.
        Inr (''<img src="'' @ py_str E src @ ''" style="'' @ css @ ''" />'')))
      else Inr (''<div style="'' @ css @ ''"></div>''))\<close>

definition element :: "pyenv \<Rightarrow> (string \<times> json) list \<Rightarrow> string result" where
  "element E node = bind (node_css E node) (node_html E node)"

subsection \<open>\<^verbatim>\<open>process_node\<close>: the recursion over the children\<close>

text \<open>\<^verbatim>\<open>for child in ...: html += process_node(child)\<close>: the markups of the children are
  appended in order, and the first child that raises ends the call.\<close>

fun append_all :: "string \<Rightarrow> string result list \<Rightarrow> string result" where
  "append_all html [] = Inr html"
| "append_all html (Inl e # rs) = Inl e"
| "append_all html (Inr h # rs) = append_all (html @ h) rs"

text \<open>\<^verbatim>\<open>t = node.get("type")\<close> comes first: a node that is no dict raises there.\<close>

function process_node :: "pyenv \<Rightarrow> json \<Rightarrow> string result" where
  "process_node E (JObj node) =
     (case element E node of
        Inl e \<Rightarrow> Inl e
      | Inr html \<Rightarrow>
          (case py_iter (dict_get node ''children'' (JArr [])) of
             Inl e \<Rightarrow> Inl e
           | Inr children \<Rightarrow> append_all html (map (process_node E) children)))"
| "process_node E JNull = Inl AttributeError"
| "process_node E (JBool b) = Inl AttributeError"
| "process_node E (JInt n) = Inl AttributeError"
| "process_node E (JFloat f) = Inl AttributeError"
| "process_node E (JStr s) = Inl AttributeError"
| "process_node E (JArr xs) = Inl AttributeError"
  by pat_completeness auto
termination
proof (relation "measure (\<lambda>(E, node). size node)")
  show "wf (measure (\<lambda>(E :: pyenv, node :: json). size node))"
    by simp
next
  fix E :: pyenv and node :: "(string \<times> json) list" and html :: string
    and children :: "json list" and x :: json
  assume iter: "py_iter (dict_get node ''children'' (JArr [])) = Inr children"
    and x: "x \<in> set children"
  have in_dict: "map_of kvs k = Some v \<Longrightarrow> size v < Suc (size_list (size_prod (\<lambda>_. 0) size) kvs)"
    for kvs :: "(string \<times> json) list" and k v
    by (induction kvs) (auto split: if_splits)
  have in_list: "y \<in> set ys \<Longrightarrow> size y < Suc (size_list size ys)" for y :: json and ys
    by (induction ys) auto
  have in_iter: "py_iter v = Inr cs \<Longrightarrow> y \<in> set cs \<Longrightarrow> size y < Suc (size v)" for v cs y
    by (cases v) (auto dest: in_list)
  have "size x < size (JObj node)"
  proof (cases "map_of node ''children''")
    case None
    with iter x show ?thesis by (simp add: dict_get_def)
  next
    case (Some v)
    with iter x have "size x < Suc (size v)"
      by (auto simp: dict_get_def dest: in_iter)
    moreover from Some have "size v < size (JObj node)"
      by (auto dest: in_dict)
    ultimately show ?thesis by simp
  qed
  then show "((E, x), (E, JObj node)) \<in> measure (\<lambda>(E, node). size node)"
    by simp
qed

section \<open>The runtime of the worked examples\<close>

text \<open>
  The examples below run the program against this runtime. It knows the floats the
  examples contain (\<open>0.5\<close>, whose product with 255 is exact and whose \<^verbatim>\<open>str\<close> is
  \<^verbatim>\<open>0.5\<close>) and two node ids: the image endpoint answers \<^verbatim>\<open>{"err": null, "images": {}}\<close>
  for every id but \<^verbatim>\<open>9:9\<close>, for which the request fails. No example prints a list or
  a dict, or converts a string to an integer.
\<close>

definition example_env :: pyenv where
  "example_env =
     \<lparr> float_mul = (\<lambda>f k. case f of Finite q \<Rightarrow> Finite (q * of_int k) | _ \<Rightarrow> f),
       float_str = (\<lambda>f. if f = Finite (1 / 2) then ''0.5'' else []),
       container_str = (\<lambda>v. []),
       int_of_str = (\<lambda>s. Inl ValueError),
       images_get = (\<lambda>node_id.
         if node_id = JStr ''9:9'' then Inl FetchError
         else Inr (JObj [(''err'', JNull), (''images'', JObj [])])) \<rparr>"

text \<open>
  The image endpoint maps an id that it cannot render to \<^verbatim>\<open>null\<close>: the same runtime with
  an endpoint that answers \<^verbatim>\<open>{"err": null, "images": {"3:4": null}}\<close>.
\<close>

definition null_image_env :: pyenv where
  "null_image_env =
     example_env \<lparr> images_get := (\<lambda>node_id.
       Inr (JObj [(''err'', JNull), (''images'', JObj [(''3:4'', JNull)])])) \<rparr>"

section \<open>Two rules in the words of the specification\<close>

text \<open>
  "The channel value times 255", as a number: an integer channel gives the exact
  product, a float channel the value of the float product \<^verbatim>\<open>c[k] * 255\<close>. Defined
  for a colour that is a dict with a number under the key, and a finite product.
\<close>

definition channel_times_255 :: "pyenv \<Rightarrow> json \<Rightarrow> string \<Rightarrow> rat option" where
  "channel_times_255 E c k =
     (case py_getitem c k of
        Inr (JInt n) \<Rightarrow> Some (of_int n * 255)
      | Inr (JFloat f) \<Rightarrow>
          (case float_mul E f 255 of Finite p \<Rightarrow> Some p | NegZero \<Rightarrow> Some 0 | _ \<Rightarrow> None)
      | _ \<Rightarrow> None)"

text \<open>
  "HTML-special characters escaped", as the specification asks of the text of a
  paragraph: the ampersand and the angle brackets become entities. The program has no
  such function; this one states what the requirement would give.
\<close>

definition html_escape :: "string \<Rightarrow> string" where
  "html_escape s =
     concat (map (\<lambda>c.
       if c = CHR ''&'' then ''&amp;''
       else if c = CHR ''<'' then ''&lt;''
       else if c = CHR ''>'' then ''&gt;''
       else [c]) s)"

section \<open>Basic facts\<close>

lemma bind_Inr [simp]: "bind (Inr x) f = f x"
  by (simp add: bind_def)

lemma bind_Inl [simp]: "bind (Inl e) f = Inl e"
  by (simp add: bind_def)

lemma bind_eq_Inr: "bind m f = Inr y \<longleftrightarrow> (\<exists>x. m = Inr x \<and> f x = Inr y)"
  by (cases m) simp_all

lemma trunc_of_int [simp]: "trunc (of_int n) = n"
  by (simp add: trunc_def)

lemma trunc_numeral [simp]: "trunc (numeral k) = numeral k" "trunc 0 = 0" "trunc 1 = 1"
  by (simp_all add: trunc_def)

lemma trunc_of_int_255 [simp]: "trunc (of_int n * 255) = n * 255"
  using trunc_of_int [of "n * 255"] by simp

lemma trunc_half_255: "trunc (255 / 2) = 127"
  by code_simp

lemma str_int_examples:
  "str_int 0 = ''0''" "str_int 1 = ''1''" "str_int 3 = ''3''" "str_int 4 = ''4''"
  "str_int 8 = ''8''" "str_int 10 = ''10''" "str_int 12 = ''12''" "str_int 20 = ''20''"
  "str_int 50 = ''50''" "str_int 100 = ''100''" "str_int 127 = ''127''" "str_int 255 = ''255''"
  by (simp_all add: str_int_def)

section \<open>The colour of a fill\<close>

lemma channel_trunc:
  "channel_times_255 E c k = Some p \<Longrightarrow> channel E c k = Inr (trunc p)"
  unfolding channel_times_255_def channel_def
  by (auto split: sum.splits json.splits pyfloat.splits)

text \<open>
  C3. A fill whose type is SOLID yields \<^verbatim>\<open>rgba(R,G,B,A)\<close>, where each of R, G, B is
  the channel value times 255, truncated (not rounded), and A is the \<^verbatim>\<open>opacity\<close> of the
  fill as it stands, 1 when the fill has none. A fill of any other type yields the
  empty string.
\<close>

theorem rgba_from_fill_color:
  "(str_eq (dict_get fill ''type'' JNull) ''SOLID'' \<longrightarrow>
      map_of fill ''color'' = Some c \<longrightarrow>
      channel_times_255 E c ''r'' = Some r \<longrightarrow>
      channel_times_255 E c ''g'' = Some g \<longrightarrow>
      channel_times_255 E c ''b'' = Some b \<longrightarrow>
      rgba_from_fill E (JObj fill) =
        Inr (''rgba('' @ str_int (trunc r) @ '','' @ str_int (trunc g) @ '','' @ str_int (trunc b)
             @ '','' @ py_str E (dict_get fill ''opacity'' (JInt 1)) @ '')''))
   \<and> (\<not> str_eq (dict_get fill ''type'' JNull) ''SOLID'' \<longrightarrow> rgba_from_fill E (JObj fill) = Inr [])"
  by (simp add: rgba_from_fill_def channel_trunc)

text \<open>The fill of the specification (red, half opaque); a fill without opacity whose
  blue channel is the float 0.5, which becomes 127 and not 128; a gradient.\<close>

theorem rgba_from_fill_color_witness:
  "rgba_from_fill example_env
     (JObj [(''type'', JStr ''SOLID''),
            (''color'', JObj [(''r'', JInt 1), (''g'', JInt 0), (''b'', JInt 0)]),
            (''opacity'', JFloat (Finite (1 / 2)))])
     = Inr ''rgba(255,0,0,0.5)''
   \<and> rgba_from_fill example_env
     (JObj [(''type'', JStr ''SOLID''),
            (''color'', JObj [(''r'', JInt 1), (''g'', JInt 0), (''b'', JFloat (Finite (1 / 2)))])])
     = Inr ''rgba(255,0,127,1)''
   \<and> rgba_from_fill example_env (JObj [(''type'', JStr ''GRADIENT_LINEAR'')]) = Inr []"
  using rgba_from_fill_color [of
      "[(''type'', JStr ''SOLID''),
        (''color'', JObj [(''r'', JInt 1), (''g'', JInt 0), (''b'', JInt 0)]),
        (''opacity'', JFloat (Finite (1 / 2)))]"
      "JObj [(''r'', JInt 1), (''g'', JInt 0), (''b'', JInt 0)]"
      example_env 255 0 0]
    rgba_from_fill_color [of
      "[(''type'', JStr ''SOLID''),
        (''color'', JObj [(''r'', JInt 1), (''g'', JInt 0), (''b'', JFloat (Finite (1 / 2)))])]"
      "JObj [(''r'', JInt 1), (''g'', JInt 0), (''b'', JFloat (Finite (1 / 2)))]"
      example_env 255 0 "255 / 2"]
    rgba_from_fill_color [of "[(''type'', JStr ''GRADIENT_LINEAR'')]" _ example_env]
  by (simp add: dict_get_def channel_times_255_def example_env_def str_int_examples trunc_half_255)

section \<open>The style string\<close>

lemmas css_defs =
  node_css_def css_layout_def css_position_def css_autolayout_def css_constraints_def
  css_grid_def css_fill_def fills_or_empty_def dict_get_def Let_def

lemma lower_min:
  "lower_char CHR ''M'' = CHR ''m''" "lower_char CHR ''I'' = CHR ''i''"
  "lower_char CHR ''N'' = CHR ''n''"
  by (simp_all add: lower_char_def capitals_def)

lemma node_css_Inr:
  "node_css E node = Inr css \<longleftrightarrow>
     (\<exists>p a c g f. css_position E node = Inr p \<and> css_autolayout E node = Inr a
        \<and> css_constraints node = Inr c \<and> css_grid E node = Inr g \<and> css_fill E node = Inr f
        \<and> css = p @ a @ c @ g @ f)"
  by (auto simp: node_css_def css_layout_def bind_eq_Inr)

lemma css_position_Inr:
  assumes "css_position E node = Inr p" and "map_of node ''absoluteBoundingBox'' = Some bb"
  shows "\<exists>x y w h. py_getitem bb ''x'' = Inr x \<and> py_getitem bb ''y'' = Inr y
           \<and> py_getitem bb ''width'' = Inr w \<and> py_getitem bb ''height'' = Inr h
           \<and> p = ''position:absolute; left:'' @ py_str E x @ ''px; top:'' @ py_str E y
                 @ ''px; width:'' @ py_str E w @ ''px; height:'' @ py_str E h @ ''px; ''"
  using assms by (auto simp: css_position_def bind_eq_Inr)

text \<open>
  C9. Whatever the type of the node, when it has an \<^verbatim>\<open>absoluteBoundingBox\<close> and the
  style is synthesised, the style starts with the absolute position: \<^verbatim>\<open>left\<close>, \<^verbatim>\<open>top\<close>,
  \<^verbatim>\<open>width\<close> and \<^verbatim>\<open>height\<close> are the \<^verbatim>\<open>x\<close>, \<^verbatim>\<open>y\<close>, \<^verbatim>\<open>width\<close> and \<^verbatim>\<open>height\<close> of the box as
  \<^verbatim>\<open>str\<close> prints them, in pixels.
\<close>

theorem absolute_position_verbatim:
  assumes "node_css E node = Inr css" and "map_of node ''absoluteBoundingBox'' = Some bb"
  shows "\<exists>x y w h rest.
           py_getitem bb ''x'' = Inr x \<and> py_getitem bb ''y'' = Inr y
           \<and> py_getitem bb ''width'' = Inr w \<and> py_getitem bb ''height'' = Inr h
           \<and> css = ''position:absolute; left:'' @ py_str E x @ ''px; top:'' @ py_str E y
                   @ ''px; width:'' @ py_str E w @ ''px; height:'' @ py_str E h @ ''px; '' @ rest"
proof -
  from assms(1) obtain p a c g f where p: "css_position E node = Inr p"
    and css: "css = p @ a @ c @ g @ f"
    by (auto simp: node_css_Inr)
  from css_position_Inr [OF p assms(2)] obtain x y w h where
    "py_getitem bb ''x'' = Inr x" "py_getitem bb ''y'' = Inr y"
    "py_getitem bb ''width'' = Inr w" "py_getitem bb ''height'' = Inr h"
    "p = ''position:absolute; left:'' @ py_str E x @ ''px; top:'' @ py_str E y
           @ ''px; width:'' @ py_str E w @ ''px; height:'' @ py_str E h @ ''px; ''"
    by blast
  with css show ?thesis by simp
qed

text \<open>A TEXT node with a bounding box.\<close>

theorem absolute_position_verbatim_witness:
  "\<exists>rest. node_css example_env
      [(''type'', JStr ''TEXT''),
       (''absoluteBoundingBox'',
          JObj [(''x'', JInt 10), (''y'', JInt 20), (''width'', JInt 100), (''height'', JInt 50)])]
    = Inr (''position:absolute; left:10px; top:20px; width:100px; height:50px; '' @ rest)"
proof -
  let ?bb = "JObj [(''x'', JInt 10), (''y'', JInt 20), (''width'', JInt 100), (''height'', JInt 50)]"
  let ?node = "[(''type'', JStr ''TEXT''), (''absoluteBoundingBox'', ?bb)]"
  have css: "node_css example_env ?node
      = Inr ''position:absolute; left:10px; top:20px; width:100px; height:50px; ''"
    by (simp add: css_defs str_int_examples)
  have bb: "map_of ?node ''absoluteBoundingBox'' = Some ?bb"
    by simp
  from absolute_position_verbatim [OF css bb] obtain x y w h rest where
    "py_getitem ?bb ''x'' = Inr x" "py_getitem ?bb ''y'' = Inr y"
    "py_getitem ?bb ''width'' = Inr w" "py_getitem ?bb ''height'' = Inr h"
    "''position:absolute; left:10px; top:20px; width:100px; height:50px; ''
       = ''position:absolute; left:'' @ py_str example_env x @ ''px; top:'' @ py_str example_env y
          @ ''px; width:'' @ py_str example_env w @ ''px; height:'' @ py_str example_env h
          @ ''px; '' @ rest"
    by blast
  then have "rest = []"
    by (auto simp: str_int_examples)
  with css show ?thesis by simp
qed

lemma css_autolayout_Inr:
  assumes "css_autolayout E node = Inr a" and "truthy (dict_get node ''layoutMode'' JNull)"
  shows "\<exists>pa ca. dict_get node ''primaryAxisAlignItems'' (JStr ''MIN'') = JStr pa
           \<and> dict_get node ''counterAxisAlignItems'' (JStr ''MIN'') = JStr ca
           \<and> a = ''display:flex; flex-direction:''
                 @ (if str_eq (dict_get node ''layoutMode'' JNull) ''HORIZONTAL'' then ''row'' else ''column'')
                 @ ''; gap:'' @ py_str E (dict_get node ''itemSpacing'' (JInt 0))
                 @ ''px; padding:'' @ py_str E (dict_get node ''paddingTop'' (JInt 0))
                 @ ''px '' @ py_str E (dict_get node ''paddingRight'' (JInt 0))
                 @ ''px '' @ py_str E (dict_get node ''paddingBottom'' (JInt 0))
                 @ ''px '' @ py_str E (dict_get node ''paddingLeft'' (JInt 0))
                 @ ''px; align-items:'' @ map lower_char pa
                 @ ''; justify-content:'' @ map lower_char ca @ ''; ''"
proof -
  from assms obtain ai jc where
    ai: "py_lower (dict_get node ''primaryAxisAlignItems'' (JStr ''MIN'')) = Inr ai"
    and jc: "py_lower (dict_get node ''counterAxisAlignItems'' (JStr ''MIN'')) = Inr jc"
    and a: "a = ''display:flex; flex-direction:''
                 @ (if str_eq (dict_get node ''layoutMode'' JNull) ''HORIZONTAL'' then ''row'' else ''column'')
                 @ ''; gap:'' @ py_str E (dict_get node ''itemSpacing'' (JInt 0))
                 @ ''px; padding:'' @ py_str E (dict_get node ''paddingTop'' (JInt 0))
                 @ ''px '' @ py_str E (dict_get node ''paddingRight'' (JInt 0))
                 @ ''px '' @ py_str E (dict_get node ''paddingBottom'' (JInt 0))
                 @ ''px '' @ py_str E (dict_get node ''paddingLeft'' (JInt 0))
                 @ ''px; align-items:'' @ ai @ ''; justify-content:'' @ jc @ ''; ''"
    by (auto simp: css_autolayout_def Let_def bind_eq_Inr)
  from ai obtain pa where "dict_get node ''primaryAxisAlignItems'' (JStr ''MIN'') = JStr pa"
    "ai = map lower_char pa"
    by (cases "dict_get node ''primaryAxisAlignItems'' (JStr ''MIN'')") auto
  moreover from jc obtain ca where "dict_get node ''counterAxisAlignItems'' (JStr ''MIN'') = JStr ca"
    "jc = map lower_char ca"
    by (cases "dict_get node ''counterAxisAlignItems'' (JStr ''MIN'')") auto
  ultimately show ?thesis using a by simp
qed

text \<open>
  C5. When the node has a \<^verbatim>\<open>layoutMode\<close> (the test \<^verbatim>\<open>node.get("layoutMode")\<close> holds) and
  the style is synthesised, the style contains the flex declarations: direction \<^verbatim>\<open>row\<close>
  exactly for HORIZONTAL and \<^verbatim>\<open>column\<close> otherwise, the gap \<^verbatim>\<open>itemSpacing\<close> (default 0), the
  four paddings in the order top, right, bottom, left (default 0 each), \<^verbatim>\<open>align-items\<close>
  the lower-cased \<^verbatim>\<open>primaryAxisAlignItems\<close> and \<^verbatim>\<open>justify-content\<close> the lower-cased
  \<^verbatim>\<open>counterAxisAlignItems\<close> (default MIN each, so \<^verbatim>\<open>min\<close>).
\<close>

theorem auto_layout_flex:
  assumes "node_css E node = Inr css" and "truthy (dict_get node ''layoutMode'' JNull)"
  shows "\<exists>pa ca before rest.
           dict_get node ''primaryAxisAlignItems'' (JStr ''MIN'') = JStr pa
           \<and> dict_get node ''counterAxisAlignItems'' (JStr ''MIN'') = JStr ca
           \<and> css = before @ ''display:flex; flex-direction:''
                 @ (if str_eq (dict_get node ''layoutMode'' JNull) ''HORIZONTAL'' then ''row'' else ''column'')
                 @ ''; gap:'' @ py_str E (dict_get node ''itemSpacing'' (JInt 0))
                 @ ''px; padding:'' @ py_str E (dict_get node ''paddingTop'' (JInt 0))
                 @ ''px '' @ py_str E (dict_get node ''paddingRight'' (JInt 0))
                 @ ''px '' @ py_str E (dict_get node ''paddingBottom'' (JInt 0))
                 @ ''px '' @ py_str E (dict_get node ''paddingLeft'' (JInt 0))
                 @ ''px; align-items:'' @ map lower_char pa
                 @ ''; justify-content:'' @ map lower_char ca @ ''; '' @ rest"
proof -
  from assms(1) obtain p a c g f where a: "css_autolayout E node = Inr a"
    and css: "css = p @ a @ (c @ g @ f)"
    by (auto simp: node_css_Inr)
  from css_autolayout_Inr [OF a assms(2)] obtain pa ca where
    pa: "dict_get node ''primaryAxisAlignItems'' (JStr ''MIN'') = JStr pa"
    and ca: "dict_get node ''counterAxisAlignItems'' (JStr ''MIN'') = JStr ca"
    and aeq: "a = ''display:flex; flex-direction:''
                 @ (if str_eq (dict_get node ''layoutMode'' JNull) ''HORIZONTAL'' then ''row'' else ''column'')
                 @ ''; gap:'' @ py_str E (dict_get node ''itemSpacing'' (JInt 0))
                 @ ''px; padding:'' @ py_str E (dict_get node ''paddingTop'' (JInt 0))
                 @ ''px '' @ py_str E (dict_get node ''paddingRight'' (JInt 0))
                 @ ''px '' @ py_str E (dict_get node ''paddingBottom'' (JInt 0))
                 @ ''px '' @ py_str E (dict_get node ''paddingLeft'' (JInt 0))
                 @ ''px; align-items:'' @ map lower_char pa
                 @ ''; justify-content:'' @ map lower_char ca @ ''; ''"
    by blast
  show ?thesis
    apply (rule exI [of _ pa], rule exI [of _ ca], rule exI [of _ p], rule exI [of _ "c @ g @ f"])
    using pa ca css aeq by simp
qed

text \<open>The node of the specification: HORIZONTAL, spacing 8, paddings 4, default alignments.\<close>

theorem auto_layout_flex_witness:
  "\<exists>before rest. node_css example_env
      [(''type'', JStr ''FRAME''), (''layoutMode'', JStr ''HORIZONTAL''), (''itemSpacing'', JInt 8),
       (''paddingTop'', JInt 4), (''paddingRight'', JInt 4), (''paddingBottom'', JInt 4),
       (''paddingLeft'', JInt 4)]
    = Inr (before @ ''display:flex; flex-direction:row; gap:8px; padding:4px 4px 4px 4px; align-items:min; justify-content:min; '' @ rest)"
proof -
  let ?node = "[(''type'', JStr ''FRAME''), (''layoutMode'', JStr ''HORIZONTAL''), (''itemSpacing'', JInt 8),
       (''paddingTop'', JInt 4), (''paddingRight'', JInt 4), (''paddingBottom'', JInt 4),
       (''paddingLeft'', JInt 4)]"
  have css: "node_css example_env ?node
      = Inr ''display:flex; flex-direction:row; gap:8px; padding:4px 4px 4px 4px; align-items:min; justify-content:min; ''"
    by (simp add: css_defs str_int_examples lower_min)
  have mode: "truthy (dict_get ?node ''layoutMode'' JNull)"
    by (simp add: dict_get_def)
  from auto_layout_flex [OF css mode] obtain pa ca before rest where
    "dict_get ?node ''primaryAxisAlignItems'' (JStr ''MIN'') = JStr pa"
    "dict_get ?node ''counterAxisAlignItems'' (JStr ''MIN'') = JStr ca"
    "''display:flex; flex-direction:row; gap:8px; padding:4px 4px 4px 4px; align-items:min; justify-content:min; ''
       = before @ ''display:flex; flex-direction:''
                 @ (if str_eq (dict_get ?node ''layoutMode'' JNull) ''HORIZONTAL'' then ''row'' else ''column'')
                 @ ''; gap:'' @ py_str example_env (dict_get ?node ''itemSpacing'' (JInt 0))
                 @ ''px; padding:'' @ py_str example_env (dict_get ?node ''paddingTop'' (JInt 0))
                 @ ''px '' @ py_str example_env (dict_get ?node ''paddingRight'' (JInt 0))
                 @ ''px '' @ py_str example_env (dict_get ?node ''paddingBottom'' (JInt 0))
                 @ ''px '' @ py_str example_env (dict_get ?node ''paddingLeft'' (JInt 0))
                 @ ''px; align-items:'' @ map lower_char pa
                 @ ''; justify-content:'' @ map lower_char ca @ ''; '' @ rest"
    by blast
  then have "''display:flex; flex-direction:row; gap:8px; padding:4px 4px 4px 4px; align-items:min; justify-content:min; ''
       = before @ ''display:flex; flex-direction:row; gap:8px; padding:4px 4px 4px 4px; align-items:min; justify-content:min; '' @ rest"
    by (auto simp: dict_get_def str_int_examples lower_min)
  with css show ?thesis by metis
qed

text \<open>
  C6. The program of a node whose first layout grid has the pattern COLUMNS and no
  \<^verbatim>\<open>count\<close>: \<^verbatim>\<open>g.get('count')\<close> is \<^verbatim>\<open>None\<close>, which the f-string prints, and the call
  returns normally with a grid declaration of \<^verbatim>\<open>None\<close> columns. No error is raised.
\<close>

theorem grid_without_count:
  \<open>css_grid E [(''type'', JStr ''FRAME''), (''layoutGrids'', JArr [JObj [(''pattern'', JStr ''COLUMNS'')]])]
     = Inr ''display:grid; grid-template-columns: repeat(None, 1fr); column-gap: 0px; ''
   \<and> process_node E (JObj [(''type'', JStr ''FRAME''),
         (''layoutGrids'', JArr [JObj [(''pattern'', JStr ''COLUMNS'')]])])
     = Inr ''<div style="display:grid; grid-template-columns: repeat(None, 1fr); column-gap: 0px; "></div>''\<close>
  by (simp add: element_def node_html_def css_defs str_int_examples)

section \<open>The background colour\<close>

lemma dict_get_update [simp]:
  "dict_get (AList.update k v node) k' d = (if k' = k then v else dict_get node k' d)"
  by (simp add: dict_get_def update_conv')

lemma css_layout_update_fills:
  "css_layout E (AList.update ''fills'' v node) = css_layout E node"
  by (simp add: css_layout_def css_position_def css_autolayout_def css_constraints_def
      css_grid_def update_conv' cong: if_cong)

lemma bind_return [simp]: "bind m Inr = m"
  by (cases m) simp_all












section \<open>The element of a node\<close>

lemma str_eq_distinct:
  "str_eq t ''IMAGE'' \<Longrightarrow> \<not> str_eq t ''TEXT''"
  by (cases t) auto

lemma element_Inr:
  "element E node = Inr html \<longleftrightarrow> (\<exists>css. node_css E node = Inr css \<and> node_html E node css = Inr html)"
  by (simp add: element_def bind_eq_Inr)

lemma text_color_cases:
  "\<not> truthy (dict_get node ''fills'' JNull) \<Longrightarrow> text_color E node = Inr ''black''"
  "dict_get node ''fills'' JNull = JArr (fill # rest) \<Longrightarrow>
     text_color E node =
       bind (py_get fill ''type'' JNull) (\<lambda>ty.
         if str_eq ty ''SOLID'' then rgba_from_fill E fill else Inr ''black'')"
  by (simp_all add: text_color_def fills_or_empty_def)

text \<open>
  C7. The paragraph of a TEXT node carries the style string followed by \<^verbatim>\<open>font-size\<close>, the
  \<^verbatim>\<open>fontSize\<close> of \<^verbatim>\<open>style\<close> (default 12) in pixels, and \<^verbatim>\<open>color\<close>: the colour of the first
  fill when its type is SOLID, and \<^verbatim>\<open>black\<close> when \<^verbatim>\<open>fills\<close> is absent, null or empty or the
  first fill has another type.
\<close>

theorem text_paragraph_style:
  assumes \<open>str_eq (dict_get node ''type'' JNull) ''TEXT''\<close> and \<open>element E node = Inr html\<close>
  shows \<open>\<exists>css size color.
      node_css E node = Inr css
      \<and> py_get (dict_get node ''style'' (JObj [])) ''fontSize'' (JInt 12) = Inr size
      \<and> text_color E node = Inr color
      \<and> html = ''<p style="'' @ css @ ''font-size:'' @ py_str E size @ ''px; color:'' @ color
                @ '';">'' @ py_str E (dict_get node ''characters'' (JStr [])) @ ''</p>''
      \<and> (map_of node ''fills'' = None \<or> map_of node ''fills'' = Some JNull
           \<or> map_of node ''fills'' = Some (JArr []) \<longrightarrow> color = ''black'')
      \<and> (\<forall>fill rest. dict_get node ''fills'' JNull = JArr (fill # rest) \<longrightarrow>
            (\<exists>ty. py_get fill ''type'' JNull = Inr ty
               \<and> (if str_eq ty ''SOLID'' then rgba_from_fill E fill = Inr color
                   else color = ''black'')))\<close>
proof -
  from assms obtain css size color where css: "node_css E node = Inr css"
    and size: "py_get (dict_get node ''style'' (JObj [])) ''fontSize'' (JInt 12) = Inr size"
    and color: "text_color E node = Inr color"
    and html: \<open>html = ''<p style="'' @ css @ ''font-size:'' @ py_str E size @ ''px; color:'' @ color
                @ '';">'' @ py_str E (dict_get node ''characters'' (JStr [])) @ ''</p>''\<close>
    by (auto simp: element_Inr node_html_def bind_eq_Inr)
  have absent: "color = ''black''"
    if "map_of node ''fills'' = None \<or> map_of node ''fills'' = Some JNull
           \<or> map_of node ''fills'' = Some (JArr [])"
  proof -
    from that have "\<not> truthy (dict_get node ''fills'' JNull)"
      by (auto simp: dict_get_def)
    with color show ?thesis by (simp add: text_color_cases)
  qed
  have first: "\<exists>ty. py_get fill ''type'' JNull = Inr ty
               \<and> (if str_eq ty ''SOLID'' then rgba_from_fill E fill = Inr color
                   else color = ''black'')"
    if "dict_get node ''fills'' JNull = JArr (fill # rest)" for fill rest
    using color that by (auto simp: text_color_cases bind_eq_Inr split: if_splits)
  from css size color html absent first show ?thesis by blast
qed

text \<open>
  The text of the specification: Hello, size 20, a black SOLID fill of opacity 1.
\<close>

theorem text_paragraph_style_witness:
  \<open>element example_env
     [(''type'', JStr ''TEXT''), (''characters'', JStr ''Hello''),
      (''style'', JObj [(''fontSize'', JInt 20)]),
      (''fills'', JArr [JObj [(''type'', JStr ''SOLID''),
         (''color'', JObj [(''r'', JInt 0), (''g'', JInt 0), (''b'', JInt 0)]),
         (''opacity'', JInt 1)]])]
   = Inr ''<p style="font-size:20px; color:rgba(0,0,0,1);">Hello</p>''
   \<and> rgba_from_fill example_env (JObj [(''type'', JStr ''SOLID''),
         (''color'', JObj [(''r'', JInt 0), (''g'', JInt 0), (''b'', JInt 0)]),
         (''opacity'', JInt 1)]) = Inr ''rgba(0,0,0,1)''\<close>
proof -
  let ?fill = "JObj [(''type'', JStr ''SOLID''),
         (''color'', JObj [(''r'', JInt 0), (''g'', JInt 0), (''b'', JInt 0)]),
         (''opacity'', JInt 1)]"
  let ?node = "[(''type'', JStr ''TEXT''), (''characters'', JStr ''Hello''),
      (''style'', JObj [(''fontSize'', JInt 20)]), (''fills'', JArr [?fill])]"
  have is_text: "str_eq (dict_get ?node ''type'' JNull) ''TEXT''"
    by (simp add: dict_get_def)
  have html: \<open>element example_env ?node
      = Inr ''<p style="font-size:20px; color:rgba(0,0,0,1);">Hello</p>''\<close>
    by (simp add: element_def node_html_def text_color_def css_defs rgba_from_fill_def
        channel_def str_int_examples)
  have fills: "dict_get ?node ''fills'' JNull = JArr [?fill]"
    by (simp add: dict_get_def)
  from text_paragraph_style [OF is_text html] fills
  have "\<exists>ty. py_get ?fill ''type'' JNull = Inr ty
          \<and> (if str_eq ty ''SOLID'' then \<exists>color. rgba_from_fill example_env ?fill = Inr color
              else True)"
    by (metis (full_types))
  then obtain color where "rgba_from_fill example_env ?fill = Inr color"
    by (auto simp: dict_get_def)
  then have "rgba_from_fill example_env ?fill = Inr ''rgba(0,0,0,1)''"
    by (simp add: rgba_from_fill_def channel_def dict_get_def str_int_examples)
  with html show ?thesis by simp
qed

text \<open>
  C1, as the program has it. The text of the paragraph of a TEXT node is \<^verbatim>\<open>characters\<close>
  (default the empty string) as \<^verbatim>\<open>str\<close> prints it, put between the tags as it is: nothing
  is escaped.
\<close>

theorem text_content_verbatim:
  assumes \<open>str_eq (dict_get node ''type'' JNull) ''TEXT''\<close> and \<open>element E node = Inr html\<close>
  shows \<open>\<exists>style. html = ''<p style="'' @ style @ ''">''
            @ py_str E (dict_get node ''characters'' (JStr [])) @ ''</p>''\<close>
proof -
  from assms obtain css size color where
    \<open>html = ''<p style="'' @ css @ ''font-size:'' @ py_str E size @ ''px; color:'' @ color
                @ '';">'' @ py_str E (dict_get node ''characters'' (JStr [])) @ ''</p>''\<close>
    by (auto simp: element_Inr node_html_def bind_eq_Inr)
  then have \<open>html = ''<p style="'' @ (css @ ''font-size:'' @ py_str E size @ ''px; color:'' @ color
                @ '';'') @ ''">'' @ py_str E (dict_get node ''characters'' (JStr [])) @ ''</p>''\<close>
    by simp
  then show ?thesis by blast
qed

text \<open>
  A text with HTML-special characters, and a TEXT node without \<^verbatim>\<open>characters\<close>.
\<close>

theorem text_content_verbatim_witness:
  \<open>element example_env [(''type'', JStr ''TEXT''), (''characters'', JStr ''1 < 2 & 3'')]
     = Inr (''<p style="font-size:12px; color:black;">'' @ ''1 < 2 & 3'' @ ''</p>'')
   \<and> element example_env [(''type'', JStr ''TEXT'')]
     = Inr (''<p style="font-size:12px; color:black;">'' @ [] @ ''</p>'')\<close>
proof -
  let ?node = "[(''type'', JStr ''TEXT''), (''characters'', JStr ''1 < 2 & 3'')]"
  let ?bare = "[(''type'', JStr ''TEXT'')]"
  have t: "str_eq (dict_get ?node ''type'' JNull) ''TEXT''"
    "str_eq (dict_get ?bare ''type'' JNull) ''TEXT''"
    by (simp_all add: dict_get_def)
  have html: \<open>element example_env ?node = Inr ''<p style="font-size:12px; color:black;">1 < 2 & 3</p>''\<close>
    \<open>element example_env ?bare = Inr ''<p style="font-size:12px; color:black;"></p>''\<close>
    by (simp_all add: element_def node_html_def text_color_def css_defs str_int_examples)
  from text_content_verbatim [OF t(1) html(1)] text_content_verbatim [OF t(2) html(2)] html
  show ?thesis by simp
qed

text \<open>
  C1 as the specification states it fails: the characters \<^verbatim>\<open><b>\<close> reach the markup as a
  tag, not as the escaped text \<^verbatim>\<open>&lt;b&gt;\<close>.
\<close>

theorem text_content_not_escaped:
  \<open>process_node example_env (JObj [(''type'', JStr ''TEXT''), (''characters'', JStr ''<b>'')])
     = Inr ''<p style="font-size:12px; color:black;"><b></p>''
   \<and> html_escape ''<b>'' = ''&lt;b&gt;''
   \<and> process_node example_env (JObj [(''type'', JStr ''TEXT''), (''characters'', JStr ''<b>'')])
     \<noteq> Inr (''<p style="font-size:12px; color:black;">'' @ html_escape ''<b>'' @ ''</p>'')\<close>
  by (simp add: element_def node_html_def text_color_def css_defs str_int_examples html_escape_def)

text \<open>
  An IMAGE node whose id is not a key of \<^verbatim>\<open>images\<close> in the answer of the endpoint gets
  an \<^verbatim>\<open>img\<close> element with an empty \<^verbatim>\<open>src\<close>, and the call returns; when the request itself
  fails, the failure is the result of the whole call.
\<close>

lemma image_absent_id:
  assumes \<open>str_eq (dict_get node ''type'' JNull) ''IMAGE''\<close>
    and \<open>node_css E node = Inr css\<close>
    and \<open>map_of node ''id'' = Some (JStr i)\<close>
  shows \<open>(images_get E (JStr i) = Inr (JObj body) \<longrightarrow>
            map_of body ''images'' = Some (JObj images) \<longrightarrow> map_of images i = None \<longrightarrow>
            element E node = Inr (''<img src="" style="'' @ css @ ''" />'')
            \<and> (map_of node ''children'' = None \<longrightarrow>
                 process_node E (JObj node) = Inr (''<img src="" style="'' @ css @ ''" />'')))
         \<and> (images_get E (JStr i) = Inl err \<longrightarrow>
            element E node = Inl err \<and> process_node E (JObj node) = Inl err)\<close>
  using assms str_eq_distinct [OF assms(1)]
  by (simp add: element_def node_html_def get_image_url_def dict_get_def)

text \<open>
  The id \<^verbatim>\<open>1:2\<close>, which the endpoint does not map, and the id \<^verbatim>\<open>9:9\<close>, whose request fails.
\<close>

lemma image_absent_id_example:
  \<open>process_node example_env (JObj [(''type'', JStr ''IMAGE''), (''id'', JStr ''1:2'')])
     = Inr ''<img src="" style="" />''
   \<and> process_node example_env (JObj [(''type'', JStr ''IMAGE''), (''id'', JStr ''9:9'')])
     = Inl FetchError\<close>
proof -
  let ?ok = "[(''type'', JStr ''IMAGE''), (''id'', JStr ''1:2'')]"
  let ?bad = "[(''type'', JStr ''IMAGE''), (''id'', JStr ''9:9'')]"
  have t: "str_eq (dict_get ?ok ''type'' JNull) ''IMAGE''" "str_eq (dict_get ?bad ''type'' JNull) ''IMAGE''"
    by (simp_all add: dict_get_def)
  have css: "node_css example_env ?ok = Inr []" "node_css example_env ?bad = Inr []"
    by (simp_all add: css_defs)
  have ids: "map_of ?ok ''id'' = Some (JStr ''1:2'')" "map_of ?bad ''id'' = Some (JStr ''9:9'')"
    by simp_all
  have ok: "images_get example_env (JStr ''1:2'') = Inr (JObj [(''err'', JNull), (''images'', JObj [])])"
    "map_of [(''err'', JNull), (''images'', JObj [])] ''images'' = Some (JObj [])"
    "map_of ([] :: (string \<times> json) list) ''1:2'' = None"
    "map_of ?ok ''children'' = None"
    by (simp_all add: example_env_def)
  have bad: "images_get example_env (JStr ''9:9'') = Inl FetchError"
    by (simp add: example_env_def)
  from image_absent_id [OF t(1) css(1) ids(1), of "[(''err'', JNull), (''images'', JObj [])]" "[]"] ok
  have \<open>process_node example_env (JObj ?ok) = Inr (''<img src="" style="'' @ [] @ ''" />'')\<close>
    by blast
  moreover
  from image_absent_id [OF t(2) css(2) ids(2), of _ _ FetchError] bad
  have "process_node example_env (JObj ?bad) = Inl FetchError"
    by blast
  ultimately show ?thesis by simp
qed

text \<open>
  An id that the answer maps to \<^verbatim>\<open>null\<close> is a key of \<^verbatim>\<open>images\<close>: the default of
  \<^verbatim>\<open>images.get(node_id, "")\<close> is not used, \<^verbatim>\<open>get_image_url\<close> returns \<^verbatim>\<open>None\<close>, and the
  f-string prints it.
\<close>

lemma image_null_id:
  assumes \<open>str_eq (dict_get node ''type'' JNull) ''IMAGE''\<close>
    and \<open>node_css E node = Inr css\<close>
    and \<open>map_of node ''id'' = Some (JStr i)\<close>
    and \<open>images_get E (JStr i) = Inr (JObj body)\<close>
    and \<open>map_of body ''images'' = Some (JObj images)\<close>
    and \<open>map_of images i = Some JNull\<close>
  shows \<open>get_image_url E (JStr i) = Inr JNull\<close>
    and \<open>element E node = Inr (''<img src="None" style="'' @ css @ ''" />'')\<close>
  using assms str_eq_distinct [OF assms(1)]
  by (simp_all add: element_def node_html_def get_image_url_def dict_get_def)

text \<open>
  C8. The program of an IMAGE node whose id the endpoint maps to no URL, the answer being
  \<^verbatim>\<open>{"err": null, "images": {"3:4": null}}\<close>: \<^verbatim>\<open>get_image_url\<close> returns \<^verbatim>\<open>None\<close> and the call
  returns an \<^verbatim>\<open>img\<close> element whose \<^verbatim>\<open>src\<close> is the text \<^verbatim>\<open>None\<close>, not the empty one.
\<close>

theorem image_null_url:
  \<open>get_image_url null_image_env (JStr ''3:4'') = Inr JNull
   \<and> process_node null_image_env (JObj [(''type'', JStr ''IMAGE''), (''id'', JStr ''3:4'')])
     = Inr ''<img src="None" style="" />''\<close>
  by (simp add: element_def node_html_def get_image_url_def css_defs null_image_env_def)

section \<open>The recursion over the children\<close>

lemma append_all_Inr: "append_all html (map Inr rs) = Inr (html @ concat rs)"
  by (induction rs arbitrary: html) simp_all

text \<open>
  C4. The markup of a node is the element of the node itself followed by the markups of
  its children, one for each child, in the order of \<^verbatim>\<open>children\<close>: the children follow the
  closed element of the parent and are not nested in it. Without children the markup is
  the element alone.
\<close>

theorem children_appended_flat:
  assumes "element E node = Inr e"
    and "py_iter (dict_get node ''children'' (JArr [])) = Inr cs"
    and "map (process_node E) cs = map Inr rs"
  shows "process_node E (JObj node) = Inr (e @ concat rs)
    \<and> length rs = length cs
    \<and> (cs = [] \<longrightarrow> process_node E (JObj node) = Inr e)"
proof -
  from assms have "process_node E (JObj node) = Inr (e @ concat rs)"
    by (simp add: append_all_Inr)
  moreover from assms(3) have "length rs = length cs"
    by (metis length_map)
  moreover from assms have "process_node E (JObj node) = Inr e" if "cs = []"
    using that by simp
  ultimately show ?thesis by blast
qed

text \<open>
  A root with two children, a text and a frame.
\<close>

theorem children_appended_flat_witness:
  \<open>process_node example_env
     (JObj [(''type'', JStr ''CANVAS''),
       (''children'', JArr
          [JObj [(''type'', JStr ''TEXT''), (''characters'', JStr ''Hello''),
                 (''style'', JObj [(''fontSize'', JInt 20)])],
           JObj [(''type'', JStr ''FRAME''),
                 (''constraints'', JObj [(''horizontal'', JStr ''STRETCH'')])]])])
   = Inr (''<div style=""></div>''
          @ ''<p style="font-size:20px; color:black;">Hello</p>''
          @ ''<div style="width:100%; "></div>'')\<close>
proof -
  let ?a = "JObj [(''type'', JStr ''TEXT''), (''characters'', JStr ''Hello''),
                 (''style'', JObj [(''fontSize'', JInt 20)])]"
  let ?b = "JObj [(''type'', JStr ''FRAME''),
                 (''constraints'', JObj [(''horizontal'', JStr ''STRETCH'')])]"
  let ?root = "[(''type'', JStr ''CANVAS''), (''children'', JArr [?a, ?b])]"
  have e: \<open>element example_env ?root = Inr ''<div style=""></div>''\<close>
    by (simp add: element_def node_html_def css_defs)
  have cs: "py_iter (dict_get ?root ''children'' (JArr [])) = Inr [?a, ?b]"
    by (simp add: dict_get_def)
  have rs: \<open>map (process_node example_env) [?a, ?b]
      = map Inr [''<p style="font-size:20px; color:black;">Hello</p>'',
                 ''<div style="width:100%; "></div>'']\<close>
    by (simp add: element_def node_html_def text_color_def css_defs str_int_examples)
  from children_appended_flat [OF e cs rs] show ?thesis by simp
qed

section \<open>A null \<^verbatim>\<open>fills\<close>\<close>

lemma dict_get_null: "map_of node k = Some v \<Longrightarrow> dict_get node k d = v"
  by (simp add: dict_get_def)

lemma fills_or_empty_update_null:
  assumes "map_of node ''fills'' = Some JNull"
  shows "fills_or_empty (AList.update ''fills'' (JArr []) node) = fills_or_empty node"
  by (simp add: fills_or_empty_def dict_get_null [OF assms])

lemma node_css_update_null_fills:
  assumes "map_of node ''fills'' = Some JNull"
  shows "node_css E (AList.update ''fills'' (JArr []) node) = node_css E node"
  by (simp add: node_css_def css_layout_update_fills css_fill_def
      fills_or_empty_update_null [OF assms])

lemma node_html_update_null_fills:
  assumes "map_of node ''fills'' = Some JNull"
  shows "node_html E (AList.update ''fills'' (JArr []) node) = node_html E node"
  by (rule ext) (simp add: node_html_def text_color_def fills_or_empty_update_null [OF assms] update_conv'
      Let_def cong: if_cong)

text \<open>
  C10. A node whose \<^verbatim>\<open>fills\<close> is null is rendered exactly as the same node with the empty
  list for \<^verbatim>\<open>fills\<close>: step 5 appends no background colour, the colour of a text is
  \<^verbatim>\<open>black\<close>, and the null raises nothing.
\<close>

theorem null_fills_as_empty:
  assumes "map_of node ''fills'' = Some JNull"
  shows "process_node E (JObj node) = process_node E (JObj (AList.update ''fills'' (JArr []) node))
    \<and> css_fill E node = Inr []
    \<and> text_color E node = Inr ''black''"
proof -
  have e: "element E (AList.update ''fills'' (JArr []) node) = element E node"
    by (simp add: element_def node_css_update_null_fills [OF assms]
        node_html_update_null_fills [OF assms])
  have c: "dict_get (AList.update ''fills'' (JArr []) node) ''children'' (JArr [])
      = dict_get node ''children'' (JArr [])"
    by simp
  have "process_node E (JObj (AList.update ''fills'' (JArr []) node)) = process_node E (JObj node)"
    by (simp only: process_node.simps e c)
  moreover from assms have "css_fill E node = Inr []"
    by (simp add: css_fill_def fills_or_empty_def dict_get_def)
  moreover from assms have "text_color E node = Inr ''black''"
    by (simp add: text_color_def fills_or_empty_def dict_get_def)
  ultimately show ?thesis by simp
qed

text \<open>
  A text and a frame, each with a null and with an empty \<^verbatim>\<open>fills\<close>.
\<close>

theorem null_fills_as_empty_witness:
  \<open>process_node example_env (JObj [(''type'', JStr ''TEXT''), (''fills'', JNull)])
     = Inr ''<p style="font-size:12px; color:black;"></p>''
   \<and> process_node example_env (JObj [(''type'', JStr ''TEXT''), (''fills'', JArr [])])
     = Inr ''<p style="font-size:12px; color:black;"></p>''
   \<and> process_node example_env (JObj [(''type'', JStr ''FRAME''), (''fills'', JNull)])
     = Inr ''<div style=""></div>''
   \<and> process_node example_env (JObj [(''type'', JStr ''FRAME''), (''fills'', JArr [])])
     = Inr ''<div style=""></div>''\<close>
proof -
  have a: "map_of [(''type'', JStr ''TEXT''), (''fills'', JNull)] ''fills'' = Some JNull"
    and b: "map_of [(''type'', JStr ''FRAME''), (''fills'', JNull)] ''fills'' = Some JNull"
    by simp_all
  have \<open>process_node example_env (JObj [(''type'', JStr ''TEXT''), (''fills'', JArr [])])
     = Inr ''<p style="font-size:12px; color:black;"></p>''\<close>
    \<open>process_node example_env (JObj [(''type'', JStr ''FRAME''), (''fills'', JArr [])])
     = Inr ''<div style=""></div>''\<close>
    by (simp_all add: element_def node_html_def text_color_def css_defs str_int_examples)
  with null_fills_as_empty [OF a, of example_env] null_fills_as_empty [OF b, of example_env]
  show ?thesis by simp
qed

end
